theory Spec2Isabelle
  imports Main
begin

section \<open>The request engine of aah: data model\<close>

text \<open>
  The engine (\<^verbatim>\<open>ServeHTTP\<close> and its helpers) is embedded as pure functions over explicit
  state. A Go pointer to a struct is the struct's current value, a \<^verbatim>\<open>nil\<close> pointer of
  a freshly allocated struct is the zero value of its field, and a panic is a value
  that the function returns next to the state it leaves behind.
\<close>

type_synonym panic = string
type_synonym buffer = string

text \<open>
  The calls the engine makes on the outbound writer \<^verbatim>\<open>c.Res\<close>, in order. The wire is the
  list of these calls; what \<^verbatim>\<open>net/http\<close> does with them is not part of the engine.
\<close>

datatype wire_event =
    HeaderAdd string string
  | HeaderSet string string
  | WriteHeader int
  | Write string
  | Redirect string int

type_synonym response_writer = "wire_event list"

fun is_WriteHeader :: "wire_event \<Rightarrow> bool" where
  "is_WriteHeader (WriteHeader code) = True"
| "is_WriteHeader ev = False"

definition StatusOK :: int where "StatusOK = 200"
definition StatusMovedPermanently :: int where "StatusMovedPermanently = 301"
definition StatusTemporaryRedirect :: int where "StatusTemporaryRedirect = 307"
definition StatusNotFound :: int where "StatusNotFound = 404"
definition StatusInternalServerError :: int where "StatusInternalServerError = 500"

definition HeaderContentType :: string where "HeaderContentType = ''Content-Type''"
definition MethodGet :: string where "MethodGet = ''GET''"

subsection \<open>Errors\<close>

datatype error = errFileNotFound | errTargetNotFound

subsection \<open>Body rendering\<close>

text \<open>
  How a call of \<^verbatim>\<open>Rdr.Render(buf)\<close> ends: it returns \<^verbatim>\<open>nil\<close>, it returns an error with a
  message, or it panics.
\<close>

datatype render_status = RenderOk | RenderErr string | RenderPanic panic

text \<open>
  A render strategy. \<open>TextRender\<close> is the strategy that \<^verbatim>\<open>Reply.Text\<close> installs (a format
  and its values); \<open>OtherRender out st\<close> stands for any other implementation of the
  render interface, given by the bytes it writes and the way it ends.
\<close>

datatype render = TextRender string "string list" | OtherRender string render_status

text \<open>
  \<^verbatim>\<open>fmt.Fprintf\<close> restricted to what the engine uses: the verb \<^verbatim>\<open>%s\<close> with its argument
  supplied; every other character is copied.
\<close>

fun Sprintf :: "string \<Rightarrow> string list \<Rightarrow> string" where
  "Sprintf [] as = []"
| "Sprintf [f] as = [f]"
| "Sprintf (f # g # fs) [] = f # Sprintf (g # fs) []"
| "Sprintf (f # g # fs) (a # as) =
     (if f = CHR ''%'' \<and> g = CHR ''s'' then a @ Sprintf fs as
      else f # Sprintf (g # fs) (a # as))"

text \<open>A render strategy only writes to the buffer it is given (an \<^verbatim>\<open>io.Writer\<close>).\<close>

fun Render :: "render \<Rightarrow> buffer \<Rightarrow> buffer \<times> render_status" where
  "Render (TextRender format vals) buf = (buf @ Sprintf format vals, RenderOk)"
| "Render (OtherRender out st) buf = (buf @ out, st)"

subsection \<open>Reply builder\<close>

text \<open>
  Modelled from the spec: the \<^verbatim>\<open>reply\<close> package is not in the sources. The reply builder
  accumulates a status code (optional: unset means 200), a header mapping, a content
  type and a body-rendering strategy. \<^verbatim>\<open>Hdr\<close> is kept as a list of keys with their values,
  in the order in which \<^verbatim>\<open>writeResponse\<close> ranges over it. \<^verbatim>\<open>IsStatusSet\<close> is
  \<open>Code \<noteq> None\<close>.
\<close>

record Reply =
  Code :: "int option"
  Hdr :: "(string \<times> string list) list"
  ContType :: string
  Rdr :: "render option"

definition NewReply :: Reply where
  "NewReply = \<lparr>Code = None, Hdr = [], ContType = [], Rdr = None\<rparr>"

definition ContentTypePlainTextRaw :: string where
  "ContentTypePlainTextRaw = ''text/plain; charset=utf-8''"

definition Status :: "int \<Rightarrow> Reply \<Rightarrow> Reply" where
  "Status code r = r\<lparr>Code := Some code\<rparr>"

definition NotFound :: "Reply \<Rightarrow> Reply" where
  "NotFound r = Status StatusNotFound r"

definition Text :: "string \<Rightarrow> string list \<Rightarrow> Reply \<Rightarrow> Reply" where
  "Text format vals r =
     r\<lparr>Rdr := Some (TextRender format vals), ContType := ContentTypePlainTextRaw\<rparr>"

definition IsStatusSet :: "Reply \<Rightarrow> bool" where
  "IsStatusSet r = (Code r \<noteq> None)"

subsection \<open>Request view and Controller\<close>

text \<open>
  Modelled from the spec: \<^verbatim>\<open>ahttp.Request\<close> and \<^verbatim>\<open>Controller\<close> are declared outside the
  sources. The fields are those the engine reads and writes. \<^verbatim>\<open>Raw\<close> is the transport
  request, with the path and the query of its URL; \<^verbatim>\<open>target\<close> is the dynamic type of the
  controller instance that \<^verbatim>\<open>setTarget\<close> creates, whose method set \<^verbatim>\<open>reflect\<close> inspects.
\<close>

record raw_request =
  RawMethod :: string
  URLPath :: string
  URLRawQuery :: string
  RawLocale :: "string option"

definition raw_zero :: raw_request where
  "raw_zero = \<lparr>RawMethod = [], URLPath = [], URLRawQuery = [], RawLocale = None\<rparr>"

record Request =
  Method :: string
  Path :: string
  Locale :: "string option"
  Raw :: raw_request

record Controller =
  Req :: Request
  Res :: response_writer
  reply :: Reply
  controller :: string
  action :: string
  target :: "string option"

text \<open>The zero values that the pool factories of \<^verbatim>\<open>newEngine\<close> allocate.\<close>

definition Request_zero :: Request where
  "Request_zero = \<lparr>Method = [], Path = [], Locale = None, Raw = raw_zero\<rparr>"

definition Reply_zero :: Reply where
  "Reply_zero = \<lparr>Code = None, Hdr = [], ContType = [], Rdr = None\<rparr>"

definition Controller_zero :: Controller where
  "Controller_zero =
     \<lparr>Req = Request_zero, Res = [], reply = Reply_zero, controller = [], action = [],
      target = None\<rparr>"

text \<open>
  Modelled from the spec: the \<^verbatim>\<open>Reset\<close> methods of \<^verbatim>\<open>Controller\<close> and \<^verbatim>\<open>ahttp.Request\<close> are
  not in the sources. Release resets the mutable state of the object to its pristine
  baseline: every field is cleared.
\<close>

definition Reset_Controller :: "Controller \<Rightarrow> Controller" where
  "Reset_Controller c =
     c\<lparr>Req := Request_zero, Res := [], reply := Reply_zero, controller := [], action := [],
       target := None\<rparr>"

definition Reset_Request :: "Request \<Rightarrow> Request" where
  "Reset_Request r = r\<lparr>Method := [], Path := [], Locale := None, Raw := raw_zero\<rparr>"

text \<open>\<^verbatim>\<open>bytes.Buffer.Reset\<close> truncates the buffer to no content.\<close>

definition Reset_Buffer :: "buffer \<Rightarrow> buffer" where
  "Reset_Buffer b = []"

text \<open>
  Modelled from the spec: \<^verbatim>\<open>Controller.close\<close> is not in the sources. It closes resources
  of the transport request and changes none of the fields modelled here.
\<close>

definition close :: "Controller \<Rightarrow> Controller" where
  "close c = c"

subsection \<open>Object pool\<close>

text \<open>
  Modelled from the spec: the \<^verbatim>\<open>pool\<close> package is not in the sources. A pool owns a
  reservoir of at most \<open>cap\<close> objects and a factory; \<^verbatim>\<open>Get\<close> takes an object from the
  reservoir, or the factory's when the reservoir is empty; \<^verbatim>\<open>Put\<close> inserts the object when
  there is room and drops it otherwise.
\<close>

datatype 'a pool = Pool (cap: nat) (newFunc: 'a) (items: "'a list")

definition NewPool :: "nat \<Rightarrow> 'a \<Rightarrow> 'a pool" where
  "NewPool n new = Pool n new []"

fun pool_Get :: "'a pool \<Rightarrow> 'a \<times> 'a pool" where
  "pool_Get (Pool n new []) = (new, Pool n new [])"
| "pool_Get (Pool n new (x # xs)) = (x, Pool n new xs)"

fun pool_Put :: "'a \<Rightarrow> 'a pool \<Rightarrow> 'a pool" where
  "pool_Put v (Pool n new xs) = (if length xs < n then Pool n new (xs @ [v]) else Pool n new xs)"

subsection \<open>Engine\<close>

text \<open>
  The three pools of the engine. \<open>plog\<close> records every call of a pool, with the object
  that a \<^verbatim>\<open>Put\<close> hands over; it is not read by the engine.
\<close>

datatype pool_event =
    GetC | GetR | GetB
  | PutC Controller | PutR Request | PutB buffer

record engine =
  cPool :: "Controller pool"
  rPool :: "Request pool"
  bPool :: "buffer pool"
  plog :: "pool_event list"

definition newEngine :: engine where
  "newEngine =
     \<lparr>cPool = NewPool 150 Controller_zero,
      rPool = NewPool 150 Request_zero,
      bPool = NewPool 50 [],
      plog = []\<rparr>"

definition getController :: "engine \<Rightarrow> Controller \<times> engine" where
  "getController e =
     (case pool_Get (cPool e) of (c, p) \<Rightarrow> (c, e\<lparr>cPool := p, plog := plog e @ [GetC]\<rparr>))"

definition getRequest :: "engine \<Rightarrow> Request \<times> engine" where
  "getRequest e =
     (case pool_Get (rPool e) of (r, p) \<Rightarrow> (r, e\<lparr>rPool := p, plog := plog e @ [GetR]\<rparr>))"

definition putController :: "engine \<Rightarrow> Controller \<Rightarrow> engine" where
  "putController e c =
     (let c' = Reset_Controller c
      in e\<lparr>cPool := pool_Put c' (cPool e), plog := plog e @ [PutC c']\<rparr>)"

definition putRequest :: "engine \<Rightarrow> Request \<Rightarrow> engine" where
  "putRequest e r =
     (let r' = Reset_Request r
      in e\<lparr>rPool := pool_Put r' (rPool e), plog := plog e @ [PutR r']\<rparr>)"

definition getBuffer :: "engine \<Rightarrow> buffer \<times> engine" where
  "getBuffer e =
     (case pool_Get (bPool e) of (b, p) \<Rightarrow> (b, e\<lparr>bPool := p, plog := plog e @ [GetB]\<rparr>))"

definition putBuffer :: "engine \<Rightarrow> buffer \<Rightarrow> engine" where
  "putBuffer e b =
     (let b' = Reset_Buffer b
      in e\<lparr>bPool := pool_Put b' (bPool e), plog := plog e @ [PutB b']\<rparr>)"

subsection \<open>Application state\<close>

text \<open>
  The package-level variables that the engine reads, and the collaborators whose code is
  outside the sources, taken as parameters: the parser of the transport request (it
  returns the populated view or panics), the stack trace printer (the bytes that
  \<^verbatim>\<open>NewStacktrace(r, cfg).Print\<close> writes for the recovered value \<open>r\<close>), the controller
  registry that \<^verbatim>\<open>setTarget\<close> consults, and the method sets of the controller types.
  An element of \<open>mwChain\<close> is what \<^verbatim>\<open>Next\<close> of that element does to the Controller,
  with the panic it ends in, if any.
\<close>

type_synonym route = string

datatype go_type = TBool | TOther string

datatype go_method =
  GoMethod (params: "go_type list") (body: "bool \<Rightarrow> Controller \<Rightarrow> Controller \<times> panic option")

record domain =
  NotFoundRoute :: "route option"

record app =
  appProfile :: string
  appConfig :: "string \<rightharpoonup> string"
  mwChain :: "(Controller \<Rightarrow> Controller \<times> panic option) list"
  ParseRequest :: "raw_request \<Rightarrow> Request \<Rightarrow> panic + Request"
  StacktracePrint :: "panic \<Rightarrow> string"
  cRegistry :: "route \<rightharpoonup> string \<times> string"
  methodSet :: "string \<Rightarrow> string \<rightharpoonup> go_method"

definition StringDefault :: "(string \<rightharpoonup> string) \<Rightarrow> string \<Rightarrow> string \<Rightarrow> string" where
  "StringDefault cfg key dflt = (case cfg key of Some v \<Rightarrow> v | None \<Rightarrow> dflt)"

section \<open>Engine methods\<close>

subsection \<open>Response writer\<close>

text \<open>The two nested loops over \<^verbatim>\<open>reply.Hdr\<close>.\<close>

fun copy_headers :: "(string \<times> string list) list \<Rightarrow> response_writer \<Rightarrow> response_writer" where
  "copy_headers [] w = w"
| "copy_headers ((k, v) # hs) w = copy_headers hs (w @ map (HeaderAdd k) v)"

text \<open>\<^verbatim>\<open>bytes.Buffer.WriteTo\<close> calls \<^verbatim>\<open>Write\<close> only when the buffer holds bytes.\<close>

definition WriteTo :: "buffer \<Rightarrow> response_writer \<Rightarrow> response_writer" where
  "WriteTo buf w = (if buf = [] then w else w @ [Write buf])"

text \<open>
  \<^verbatim>\<open>writeResponse\<close>; \<open>renderBody\<close> is its block \<^verbatim>\<open>if reply.Rdr != nil\<close>. The deferred \<^verbatim>\<open>putBuffer\<close> runs on each of the three exits. The status
  written is \<^verbatim>\<open>reply.Code\<close> when \<^verbatim>\<open>IsStatusSet\<close>, else 200.
\<close>

definition renderBody :: "Reply \<Rightarrow> buffer \<Rightarrow> buffer \<times> render_status" where
  "renderBody rp buf = (case Rdr rp of None \<Rightarrow> (buf, RenderOk) | Some rdr \<Rightarrow> Render rdr buf)"

definition writeResponse :: "engine \<Rightarrow> Controller \<Rightarrow> engine \<times> Controller \<times> panic option" where
  "writeResponse e c =
     (let rp = reply c in
      case getBuffer e of (buf, e1) \<Rightarrow>
        (case renderBody rp buf of
           (buf', RenderPanic p) \<Rightarrow> (putBuffer e1 buf', c, Some p)
         | (buf', RenderErr m) \<Rightarrow>
             (putBuffer e1 buf',
              c\<lparr>Res := Res c @ [WriteHeader StatusInternalServerError,
                                 Write (''Render error: '' @ m @ ''\<newline>'')]\<rparr>,
              None)
         | (buf', RenderOk) \<Rightarrow>
             (let w1 = copy_headers (Hdr rp) (Res c);
                  w2 = w1 @ [HeaderSet HeaderContentType (ContType rp)];
                  w3 = w2 @ [WriteHeader (case Code rp of Some code \<Rightarrow> code | None \<Rightarrow> StatusOK)];
                  w4 = WriteTo buf' w3
              in (putBuffer e1 buf', c\<lparr>Res := w4\<rparr>, None))))"

datatype content_type =
  ContentTypeHTML | ContentTypeJSON | ContentTypeXML | ContentTypePlainText
  | ContentTypeOctetStream

definition defaultContentType :: "app \<Rightarrow> content_type" where
  "defaultContentType a =
     (let cfgValue = StringDefault (appConfig a) ''render.default'' [] in
      if cfgValue = ''html'' then ContentTypeHTML
      else if cfgValue = ''json'' then ContentTypeJSON
      else if cfgValue = ''xml'' then ContentTypeXML
      else if cfgValue = ''text'' then ContentTypePlainText
      else ContentTypeOctetStream)"

subsection \<open>Recovery\<close>

text \<open>
  \<^verbatim>\<open>handleRecovery\<close> runs as a deferred call; \<open>rcv\<close> is what \<^verbatim>\<open>recover()\<close> returns there:
  \<open>None\<close> when the function is not panicking. A panic of the inner \<^verbatim>\<open>writeResponse\<close> is not
  recovered again: it leaves \<^verbatim>\<open>handleRecovery\<close> after the deferred \<^verbatim>\<open>putBuffer\<close>.
\<close>

definition handleRecovery ::
  "app \<Rightarrow> engine \<Rightarrow> Controller \<Rightarrow> panic option \<Rightarrow> engine \<times> Controller \<times> panic option" where
  "handleRecovery a e c rcv =
     (case rcv of
        None \<Rightarrow> (e, c, None)
      | Some r \<Rightarrow>
          (case getBuffer e of (buf0, e1) \<Rightarrow>
             (let buf = buf0 @ StacktracePrint a r in
              if appProfile a \<noteq> ''prod'' then
                (let c1 = c\<lparr>reply := Text ''Internal Server Error: %s'' [buf]
                                        (Status StatusInternalServerError (reply c))\<rparr>
                 in case writeResponse e1 c1 of (e2, c2, p) \<Rightarrow> (putBuffer e2 buf, c2, p))
              else
                (let c1 = c\<lparr>reply := Text ''Internal Server Error'' []
                                        (Status StatusInternalServerError (reply c))\<rparr>
                 in case writeResponse e1 c1 of (e2, c2, p) \<Rightarrow> (putBuffer e2 buf, c2, p)))))"

subsection \<open>Request lifecycle\<close>

definition setDefaults :: "app \<Rightarrow> Controller \<Rightarrow> Controller" where
  "setDefaults a c =
     (if Locale (Req c) = None
      then c\<lparr>Req := (Req c)\<lparr>Locale := Some (StringDefault (appConfig a) ''i18n.default'' ''en'')\<rparr>\<rparr>
      else c)"

text \<open>\<^verbatim>\<open>mwChain[0]\<close> panics on an empty chain.\<close>

definition executeMiddlewares :: "app \<Rightarrow> Controller \<Rightarrow> Controller \<times> panic option" where
  "executeMiddlewares a c =
     (case mwChain a of
        [] \<Rightarrow> (c, Some ''runtime error: index out of range'')
      | m # ms \<Rightarrow> m c)"

text \<open>
  The statements of \<^verbatim>\<open>ServeHTTP\<close> that follow \<^verbatim>\<open>defer e.handleRecovery(c)\<close>: a panic of the
  middleware chain skips \<^verbatim>\<open>writeResponse\<close>.
\<close>

definition serveGuarded :: "app \<Rightarrow> engine \<Rightarrow> Controller \<Rightarrow> engine \<times> Controller \<times> panic option" where
  "serveGuarded a e c =
     (case executeMiddlewares a (setDefaults a c) of
        (c2, Some p) \<Rightarrow> (e, c2, Some p)
      | (c2, None) \<Rightarrow> writeResponse e c2)"

text \<open>
  \<^verbatim>\<open>ServeHTTP\<close>. Its result is the engine, the calls made on the transport's writer \<open>w\<close>,
  and the panic that leaves the method, if any. The cleanup is deferred first, so it
  runs last on every exit; the recovery is deferred after the request is parsed, so a
  panic of \<^verbatim>\<open>ParseRequest\<close> meets the cleanup only. The view \<open>r\<close> is the object that
  \<^verbatim>\<open>c.Req\<close> points to once the request is parsed.
\<close>

definition ServeHTTP ::
  "app \<Rightarrow> engine \<Rightarrow> response_writer \<Rightarrow> raw_request \<Rightarrow> engine \<times> response_writer \<times> panic option" where
  "ServeHTTP a e w req =
     (case getController e of (c, e1) \<Rightarrow>
      case getRequest e1 of (r, e2) \<Rightarrow>
      case (case ParseRequest a req r of
              Inl p \<Rightarrow> (e2, c, r, w, Some p)
            | Inr r' \<Rightarrow>
                (let c1 = c\<lparr>Req := r', Res := w, reply := NewReply\<rparr> in
                 case serveGuarded a e2 c1 of (e3, c2, p) \<Rightarrow>
                 case handleRecovery a e3 c2 p of (e4, c3, p') \<Rightarrow>
                   (e4, c3, Req c3, Res c3, p')))
      of (e5, c4, r4, w4, p4) \<Rightarrow>
        (let c5 = close c4;
             e6 = putRequest e5 r4;
             e7 = putController e6 c5
         in (e7, w4, p4)))"

section \<open>Unexported helpers\<close>

subsection \<open>Not found\<close>

text \<open>
  Modelled from the spec: \<^verbatim>\<open>Controller.setTarget\<close> is not in the sources. It resolves the
  route to the Context's routing target (the controller and its action) and fails with
  the target-not-found error when the registry has no target for the route.
\<close>

definition setTarget :: "app \<Rightarrow> Controller \<Rightarrow> route \<Rightarrow> Controller \<times> error option" where
  "setTarget a c rt =
     (case cRegistry a rt of
        None \<Rightarrow> (c, Some errTargetNotFound)
      | Some (ctl, act) \<Rightarrow> (c\<lparr>controller := ctl, action := act, target := Some ctl\<rparr>, None))"

text \<open>
  \<^verbatim>\<open>reflect.Value.Call\<close> with the one argument \<^verbatim>\<open>isStatic\<close>: it panics unless the method takes
  exactly one parameter to which a \<^verbatim>\<open>bool\<close> is assignable (\<open>TOther\<close> stands for a type to
  which it is not).
\<close>

definition Call :: "go_method \<Rightarrow> bool \<Rightarrow> Controller \<Rightarrow> Controller \<times> panic option" where
  "Call m isStatic c =
     (if length (params m) < 1 then (c, Some ''reflect: Call with too many input arguments'')
      else if length (params m) > 1 then (c, Some ''reflect: Call with too few input arguments'')
      else if params m \<noteq> [TBool] then (c, Some ''reflect: Call using bool as another type'')
      else body m isStatic c)"

text \<open>
  \<^verbatim>\<open>MethodByName\<close> on the value of \<^verbatim>\<open>c.target\<close>; on the zero \<^verbatim>\<open>reflect.Value\<close> of a \<^verbatim>\<open>nil\<close> target
  it panics.
\<close>

definition handleNotFound :: "app \<Rightarrow> Controller \<Rightarrow> domain \<Rightarrow> bool \<Rightarrow> Controller \<times> panic option" where
  "handleNotFound a c dmn isStatic =
     (case NotFoundRoute dmn of
        None \<Rightarrow> (c\<lparr>reply := Text ''404 Not Found'' [] (NotFound (reply c))\<rparr>, None)
      | Some rt \<Rightarrow>
          (case setTarget a c rt of (c1, err) \<Rightarrow>
             if err \<noteq> Some errTargetNotFound then
               (case target c1 of
                  None \<Rightarrow> (c1, Some ''reflect: call of reflect.Value.MethodByName on zero Value'')
                | Some ty \<Rightarrow>
                    (case methodSet a ty (action c1) of
                       Some notFoundAction \<Rightarrow> Call notFoundAction isStatic c1
                     | None \<Rightarrow>
                         (c1\<lparr>reply := Text ''404 Not Found'' [] (NotFound (reply c1))\<rparr>, None)))
             else (c1, None)))"

subsection \<open>Trailing slash redirect\<close>

text \<open>
  \<^verbatim>\<open>redirectTrailingSlash\<close>. \<open>URL_String\<close> stands for \<^verbatim>\<open>req.URL.String()\<close> of \<^verbatim>\<open>net/url\<close>, which
  renders the URL of the transport request (the escaped path, the query); it is a
  parameter. The call of \<^verbatim>\<open>http.Redirect\<close> is recorded with the URL and the status it is
  given.
\<close>

definition redirectTrailingSlash :: "(raw_request \<Rightarrow> string) \<Rightarrow> Controller \<Rightarrow> Controller" where
  "redirectTrailingSlash URL_String c =
     (let code = (if Method (Req c) \<noteq> MethodGet then StatusTemporaryRedirect
                  else StatusMovedPermanently);
          path = Path (Req c);
          req = Raw (Req c);
          req' = (if length path > 1 \<and> path ! (length path - 1) = CHR ''/''
                  then req\<lparr>URLPath := take (length path - 1) path\<rparr>
                  else req\<lparr>URLPath := path @ ''/''\<rparr>)
      in c\<lparr>Req := (Req c)\<lparr>Raw := req'\<rparr>, Res := Res c @ [Redirect (URL_String req') code]\<rparr>)"

section \<open>Notions used to state the properties\<close>

text \<open>
  Modelled from the spec: the content type values of \<^verbatim>\<open>ahttp\<close> are not in the sources;
  each stands for the media type of its name.
\<close>

fun Mime :: "content_type \<Rightarrow> string" where
  "Mime ContentTypeHTML = ''text/html''"
| "Mime ContentTypeJSON = ''application/json''"
| "Mime ContentTypeXML = ''application/xml''"
| "Mime ContentTypePlainText = ''text/plain''"
| "Mime ContentTypeOctetStream = ''application/octet-stream''"

text \<open>
  A pool is pristine when its factory and every object of its reservoir are the zero
  value \<open>z\<close>; an engine is pristine when its three pools are.
\<close>

definition pool_pristine :: "'a \<Rightarrow> 'a pool \<Rightarrow> bool" where
  "pool_pristine z p = (newFunc p = z \<and> list_all (\<lambda>x. x = z) (items p))"

definition pristine :: "engine \<Rightarrow> bool" where
  "pristine e =
     (pool_pristine Controller_zero (cPool e) \<and> pool_pristine Request_zero (rPool e) \<and>
      pool_pristine [] (bPool e))"


text \<open>
  The operations that reach the pools: the six accessors of the engine, called with any
  object, and a whole request.
\<close>

datatype pool_op =
    OpGetController | OpGetRequest | OpGetBuffer
  | OpPutController Controller | OpPutRequest Request | OpPutBuffer buffer
  | OpServeHTTP app response_writer raw_request

fun pool_step :: "engine \<Rightarrow> pool_op \<Rightarrow> engine" where
  "pool_step e OpGetController = snd (getController e)"
| "pool_step e OpGetRequest = snd (getRequest e)"
| "pool_step e OpGetBuffer = snd (getBuffer e)"
| "pool_step e (OpPutController c) = putController e c"
| "pool_step e (OpPutRequest r) = putRequest e r"
| "pool_step e (OpPutBuffer b) = putBuffer e b"
| "pool_step e (OpServeHTTP a w req) = fst (ServeHTTP a e w req)"

definition run_ops :: "pool_op list \<Rightarrow> engine \<Rightarrow> engine" where
  "run_ops ops e = foldl pool_step e ops"

subsection \<open>Sample inputs\<close>

definition sample_app :: app where
  "sample_app =
     \<lparr>appProfile = ''dev'',
      appConfig = [''render.default'' \<mapsto> ''json''],
      mwChain = [\<lambda>c. (c, None)],
      ParseRequest = (\<lambda>req r. Inr (r\<lparr>Method := RawMethod req, Path := URLPath req, Raw := req\<rparr>)),
      StacktracePrint = (\<lambda>r. r @ '' at main.go:1''),
      cRegistry = Map.empty,
      methodSet = (\<lambda>ty. Map.empty)\<rparr>"

definition sample_reply :: Reply where
  "sample_reply =
     \<lparr>Code = Some 201, Hdr = [(''X-Id'', [''7'', ''8''])], ContType = ''text/html'',
      Rdr = Some (OtherRender ''<p>hi</p>'' RenderOk)\<rparr>"

definition sample_controller :: "Reply \<Rightarrow> Controller" where
  "sample_controller rp = Controller_zero\<lparr>reply := rp\<rparr>"

definition sample_request :: "string \<Rightarrow> string \<Rightarrow> Controller" where
  "sample_request m p = Controller_zero\<lparr>Req := Request_zero\<lparr>Method := m, Path := p\<rparr>\<rparr>"

definition sample_app_nf :: "go_method option \<Rightarrow> app" where
  "sample_app_nf m =
     sample_app\<lparr>cRegistry := [''notfound'' \<mapsto> (''App'', ''NotFound'')],
                methodSet := (\<lambda>ty. if ty = ''App'' then (\<lambda>nm. if nm = ''NotFound'' then m else None) else Map.empty)\<rparr>"

definition sample_action :: "bool \<Rightarrow> Controller \<Rightarrow> Controller \<times> panic option" where
  "sample_action isStatic c =
     (c\<lparr>reply := Text (if isStatic then ''no such file'' else ''no such page'') []
                    (NotFound (reply c))\<rparr>, None)"

text \<open>A rendering of URLs whose path needs no escaping: the path, then the query.\<close>

definition sample_URL_String :: "raw_request \<Rightarrow> string" where
  "sample_URL_String req =
     URLPath req @ (if URLRawQuery req = [] then [] else CHR ''?'' # URLRawQuery req)"

definition sample_request_query :: "string \<Rightarrow> string \<Rightarrow> string \<Rightarrow> Controller" where
  "sample_request_query m p q =
     Controller_zero\<lparr>Req := Request_zero\<lparr>Method := m, Path := p,
       Raw := raw_zero\<lparr>URLPath := p, URLRawQuery := q\<rparr>\<rparr>\<rparr>"

definition sample_raw :: raw_request where
  "sample_raw = \<lparr>RawMethod = ''GET'', URLPath = ''/users'', URLRawQuery = [], RawLocale = None\<rparr>"

definition panicking_stage :: "Controller \<Rightarrow> Controller \<times> panic option" where
  "panicking_stage c = (c, Some ''nil pointer dereference'')"

definition panicking_parser :: "raw_request \<Rightarrow> Request \<Rightarrow> panic + Request" where
  "panicking_parser req r = Inl ''malformed request''"

section \<open>Properties of the response writer\<close>

lemma copy_headers_concat:
  "copy_headers hs w = w @ concat (map (\<lambda>(k, v). map (HeaderAdd k) v) hs)"
  by (induction hs arbitrary: w) auto

lemma filter_WriteHeader_copy_headers:
  "filter is_WriteHeader (copy_headers hs w) = filter is_WriteHeader w"
  by (induction hs arbitrary: w) (auto simp: filter_empty_conv)

lemma copy_headers_prefix: "copy_headers hs w = w @ copy_headers hs []"
  by (simp add: copy_headers_concat [of hs w] copy_headers_concat [of hs "[]"])

lemma filter_WriteHeader_WriteTo:
  "filter is_WriteHeader (WriteTo b w) = filter is_WriteHeader w"
  by (simp add: WriteTo_def)

text \<open>The three exits of \<^verbatim>\<open>writeResponse\<close>, by the way the render step ends.\<close>

lemma writeResponse_RenderOk:
  assumes "renderBody (reply c) (fst (getBuffer e)) = (b, RenderOk)"
  shows "writeResponse e c =
    (putBuffer (snd (getBuffer e)) b,
     c\<lparr>Res := Res c @ WriteTo b (copy_headers (Hdr (reply c)) [] @
         [HeaderSet HeaderContentType (ContType (reply c)),
          WriteHeader (case Code (reply c) of Some code \<Rightarrow> code | None \<Rightarrow> StatusOK)])\<rparr>,
     None)"
  using assms copy_headers_prefix [of "Hdr (reply c)" "Res c"]
  by (cases "getBuffer e") (simp add: writeResponse_def Let_def WriteTo_def)

lemma writeResponse_RenderErr:
  assumes "renderBody (reply c) (fst (getBuffer e)) = (b, RenderErr m)"
  shows "writeResponse e c =
    (putBuffer (snd (getBuffer e)) b,
     c\<lparr>Res := Res c @ [WriteHeader StatusInternalServerError,
                        Write (''Render error: '' @ m @ ''\<newline>'')]\<rparr>,
     None)"
  using assms by (cases "getBuffer e") (simp add: writeResponse_def Let_def)

lemma writeResponse_RenderPanic:
  assumes "renderBody (reply c) (fst (getBuffer e)) = (b, RenderPanic p)"
  shows "writeResponse e c = (putBuffer (snd (getBuffer e)) b, c, Some p)"
  using assms by (cases "getBuffer e") (simp add: writeResponse_def Let_def)

lemma getBuffer_newEngine: "getBuffer newEngine = ([], newEngine\<lparr>plog := [GetB]\<rparr>)"
  by (simp add: getBuffer_def newEngine_def NewPool_def)

text \<open>
  C3. When the render strategy of the reply is set and fails with the message \<open>m\<close>,
  \<^verbatim>\<open>writeResponse\<close> returns normally and all it has done to the Controller is to write
  status 500 and the body \<^verbatim>\<open>"Render error: " + m + "\n"\<close>: no header is copied, no
  content type is set and the status of the reply is not written.
\<close>

theorem writeResponse_render_failure:
  assumes "Rdr (reply c) = Some rdr"
    and "snd (Render rdr (fst (getBuffer e))) = RenderErr m"
  shows "snd (snd (writeResponse e c)) = None \<and>
         fst (snd (writeResponse e c)) =
           c\<lparr>Res := Res c @ [WriteHeader 500, Write (''Render error: '' @ m @ ''\<newline>'')]\<rparr>"
proof -
  obtain b where "Render rdr (fst (getBuffer e)) = (b, RenderErr m)"
    using assms(2) by (cases "Render rdr (fst (getBuffer e))") simp
  then have "renderBody (reply c) (fst (getBuffer e)) = (b, RenderErr m)"
    using assms(1) by (simp add: renderBody_def)
  from writeResponse_RenderErr [OF this] show ?thesis
    by (simp add: StatusInternalServerError_def)
qed

theorem writeResponse_render_failure_witness:
  "Rdr (reply (sample_controller (sample_reply\<lparr>Rdr := Some (OtherRender ''<p>'' (RenderErr ''boom''))\<rparr>))) =
     Some (OtherRender ''<p>'' (RenderErr ''boom'')) \<and>
   snd (Render (OtherRender ''<p>'' (RenderErr ''boom'')) (fst (getBuffer newEngine))) = RenderErr ''boom'' \<and>
   Res (fst (snd (writeResponse newEngine
     (sample_controller (sample_reply\<lparr>Rdr := Some (OtherRender ''<p>'' (RenderErr ''boom''))\<rparr>))))) =
     [WriteHeader 500, Write ''Render error: boom\<newline>'']"
  using writeResponse_render_failure [of
     "sample_controller (sample_reply\<lparr>Rdr := Some (OtherRender ''<p>'' (RenderErr ''boom''))\<rparr>)"
     "OtherRender ''<p>'' (RenderErr ''boom'')" newEngine "''boom''"]
  by (simp add: sample_controller_def sample_reply_def Controller_zero_def)

text \<open>
  C9. When the render step succeeds or is absent, \<^verbatim>\<open>writeResponse\<close> extends the wire by
  calls of which exactly one writes a status: 200 when the reply has no status
  assigned, the assigned status otherwise.
\<close>

theorem writeResponse_status:
  assumes "snd (renderBody (reply c) (fst (getBuffer e))) = RenderOk"
  shows "take (length (Res c)) (Res (fst (snd (writeResponse e c)))) = Res c \<and>
         filter is_WriteHeader (drop (length (Res c)) (Res (fst (snd (writeResponse e c))))) =
           [WriteHeader (case Code (reply c) of None \<Rightarrow> 200 | Some code \<Rightarrow> code)]"
proof -
  obtain b where "renderBody (reply c) (fst (getBuffer e)) = (b, RenderOk)"
    using assms by (cases "renderBody (reply c) (fst (getBuffer e))") simp
  from writeResponse_RenderOk [OF this] show ?thesis
    by (simp add: filter_WriteHeader_WriteTo filter_WriteHeader_copy_headers StatusOK_def
        split: option.split)
qed

theorem writeResponse_status_witness:
  "snd (renderBody (reply (sample_controller NewReply)) (fst (getBuffer newEngine))) = RenderOk \<and>
   filter is_WriteHeader (Res (fst (snd (writeResponse newEngine (sample_controller NewReply))))) =
     [WriteHeader 200] \<and>
   snd (renderBody (reply (sample_controller sample_reply)) (fst (getBuffer newEngine))) = RenderOk \<and>
   filter is_WriteHeader (Res (fst (snd (writeResponse newEngine (sample_controller sample_reply))))) =
     [WriteHeader 201]"
  using writeResponse_status [of "sample_controller NewReply" newEngine]
    writeResponse_status [of "sample_controller sample_reply" newEngine]
  by (simp add: sample_controller_def sample_reply_def NewReply_def Controller_zero_def
      renderBody_def getBuffer_newEngine)

text \<open>
  C4. The response writer is to fall back to the default content type of the
  configuration when the content type of the reply is unset. The code does not: with
  \<^verbatim>\<open>render.default\<close> set to json, for which \<^verbatim>\<open>defaultContentType\<close> gives the JSON content type,
  and a reply whose content type is unset, \<^verbatim>\<open>writeResponse\<close> sets the content-type header
  to the empty string, and the default never reaches the wire.
\<close>

theorem writeResponse_content_type_unset:
  "ContType (reply (sample_controller NewReply)) = [] \<and>
   defaultContentType sample_app = ContentTypeJSON \<and>
   Res (fst (snd (writeResponse newEngine (sample_controller NewReply)))) =
     [HeaderSet ''Content-Type'' [], WriteHeader 200] \<and>
   HeaderSet ''Content-Type'' (Mime (defaultContentType sample_app))
     \<notin> set (Res (fst (snd (writeResponse newEngine (sample_controller NewReply)))))"
  by (simp add: writeResponse_def Let_def getBuffer_newEngine renderBody_def sample_controller_def
      NewReply_def Controller_zero_def WriteTo_def HeaderContentType_def StatusOK_def
      defaultContentType_def sample_app_def StringDefault_def)

section \<open>Properties of the helpers\<close>

text \<open>
  C7, as the code has it. For every path other than the root path: when the path ends
  in a slash, \<^verbatim>\<open>redirectTrailingSlash\<close> gives the URL of the request the path without the
  trailing slash, and when it does not, the path with one slash appended; it redirects
  to that URL, with status 301 for the method GET and 307 for every other method.
\<close>

theorem redirectTrailingSlash_target:
  assumes "Path (Req c) \<noteq> ''/''"
  shows "redirectTrailingSlash URL_String c =
     (let req' = (Raw (Req c))\<lparr>URLPath :=
            (if Path (Req c) \<noteq> [] \<and> last (Path (Req c)) = CHR ''/''
             then butlast (Path (Req c)) else Path (Req c) @ ''/'')\<rparr>
      in c\<lparr>Req := (Req c)\<lparr>Raw := req'\<rparr>,
           Res := Res c @ [Redirect (URL_String req')
                    (if Method (Req c) = ''GET'' then 301 else 307)]\<rparr>)"
proof (cases "Path (Req c) = []")
  case True
  then show ?thesis
    by (simp add: redirectTrailingSlash_def Let_def MethodGet_def
        StatusTemporaryRedirect_def StatusMovedPermanently_def)
next
  case False
  then have nth: "Path (Req c) ! (length (Path (Req c)) - 1) = last (Path (Req c))"
    by (simp add: last_conv_nth)
  have len: "1 < length (Path (Req c))" if "last (Path (Req c)) = CHR ''/''"
  proof (rule ccontr)
    assume "\<not> 1 < length (Path (Req c))"
    with False have "length (Path (Req c)) = 1"
      by (cases "Path (Req c)") simp_all
    then obtain x where "Path (Req c) = [x]"
      by (cases "Path (Req c)") simp_all
    with that assms show False by simp
  qed
  show ?thesis
  proof (cases "last (Path (Req c)) = CHR ''/''")
    case True
    with False nth len [OF True] show ?thesis
      by (simp add: redirectTrailingSlash_def Let_def MethodGet_def
          StatusTemporaryRedirect_def StatusMovedPermanently_def butlast_conv_take)
  next
    case no: False
    with False nth show ?thesis
      by (simp add: redirectTrailingSlash_def Let_def MethodGet_def
          StatusTemporaryRedirect_def StatusMovedPermanently_def)
  qed
qed

theorem redirectTrailingSlash_target_witness:
  "Path (Req (sample_request_query ''GET'' ''/foo/'' ''page=2'')) \<noteq> ''/'' \<and>
   Res (redirectTrailingSlash sample_URL_String (sample_request_query ''GET'' ''/foo/'' ''page=2'')) =
     [Redirect ''/foo?page=2'' 301] \<and>
   Path (Req (sample_request ''POST'' ''/foo'')) \<noteq> ''/'' \<and>
   Res (redirectTrailingSlash sample_URL_String (sample_request ''POST'' ''/foo'')) =
     [Redirect ''/foo/'' 307]"
  using redirectTrailingSlash_target [of "sample_request_query ''GET'' ''/foo/'' ''page=2''"
      sample_URL_String]
    redirectTrailingSlash_target [of "sample_request ''POST'' ''/foo''" sample_URL_String]
  by (simp add: sample_request_def sample_request_query_def Controller_zero_def Request_zero_def
      raw_zero_def sample_URL_String_def Let_def)

text \<open>
  The claim C7 as stated fails at the root path: it ends in a slash, and the path that
  the helper gives the URL is not the path without its trailing slash.
\<close>

theorem redirectTrailingSlash_counterexample:
  "last (Path (Req (sample_request ''GET'' ''/''))) = CHR ''/'' \<and>
   URLPath (Raw (Req (redirectTrailingSlash sample_URL_String (sample_request ''GET'' ''/'')))) \<noteq>
     butlast (Path (Req (sample_request ''GET'' ''/''))) \<and>
   URLPath (Raw (Req (redirectTrailingSlash sample_URL_String (sample_request ''GET'' ''/'')))) =
     ''//''"
  by (simp add: redirectTrailingSlash_def Let_def MethodGet_def
      StatusMovedPermanently_def sample_request_def Controller_zero_def Request_zero_def)

text \<open>
  C10. When the domain declares a not-found route and \<^verbatim>\<open>setTarget\<close> fails on it with the
  target-not-found error, \<^verbatim>\<open>handleNotFound\<close> returns the Controller as it was: the reply
  gets no status and no body.
\<close>

theorem handleNotFound_target_not_found:
  assumes "NotFoundRoute dmn = Some rt"
    and "snd (setTarget a c rt) = Some errTargetNotFound"
  shows "handleNotFound a c dmn isStatic = (c, None)"
  using assms
  by (auto simp: handleNotFound_def setTarget_def split: option.splits prod.splits)

theorem handleNotFound_target_not_found_witness:
  "NotFoundRoute \<lparr>NotFoundRoute = Some ''notfound''\<rparr> = Some ''notfound'' \<and>
   snd (setTarget sample_app (sample_controller NewReply) ''notfound'') = Some errTargetNotFound \<and>
   reply (fst (handleNotFound sample_app (sample_controller NewReply)
     \<lparr>NotFoundRoute = Some ''notfound''\<rparr> True)) = NewReply \<and>
   snd (handleNotFound sample_app (sample_controller NewReply)
     \<lparr>NotFoundRoute = Some ''notfound''\<rparr> True) = None"
  using handleNotFound_target_not_found [of "\<lparr>NotFoundRoute = Some ''notfound''\<rparr>" "''notfound''"
      sample_app "sample_controller NewReply" True]
  by (simp add: setTarget_def sample_app_def sample_controller_def)

text \<open>
  C8, as the code has it. Without a not-found route of the domain, \<^verbatim>\<open>handleNotFound\<close> sets
  the reply to status 404 with the plain-text body \<^verbatim>\<open>404 Not Found\<close>. With a not-found route
  whose target is registered: when the target has a method of the action's name that
  takes one boolean, the method is called with the flag; when the target has no method
  of that name, the generic 404 reply is set. (A target that is not registered, and a
  method of that name with another signature, are not among these cases.)
\<close>

theorem handleNotFound_cases:
  "(NotFoundRoute dmn = None \<longrightarrow>
      handleNotFound a c dmn isStatic =
        (c\<lparr>reply := (reply c)\<lparr>Code := Some 404, Rdr := Some (TextRender ''404 Not Found'' []),
                                 ContType := ''text/plain; charset=utf-8''\<rparr>\<rparr>, None)) \<and>
   (NotFoundRoute dmn = Some rt \<and> cRegistry a rt = Some (ctl, act) \<and>
    methodSet a ctl act = Some m \<and> params m = [TBool] \<longrightarrow>
      handleNotFound a c dmn isStatic =
        body m isStatic (c\<lparr>controller := ctl, action := act, target := Some ctl\<rparr>)) \<and>
   (NotFoundRoute dmn = Some rt \<and> cRegistry a rt = Some (ctl, act) \<and>
    methodSet a ctl act = None \<longrightarrow>
      handleNotFound a c dmn isStatic =
        (c\<lparr>controller := ctl, action := act, target := Some ctl,
           reply := (reply c)\<lparr>Code := Some 404, Rdr := Some (TextRender ''404 Not Found'' []),
                                 ContType := ''text/plain; charset=utf-8''\<rparr>\<rparr>, None)) \<and>
   Render (TextRender ''404 Not Found'' []) [] = (''404 Not Found'', RenderOk)"
  by (simp add: handleNotFound_def setTarget_def Call_def Text_def NotFound_def Status_def
      StatusNotFound_def ContentTypePlainTextRaw_def)

theorem handleNotFound_cases_witness:
  "handleNotFound sample_app (sample_controller NewReply) \<lparr>NotFoundRoute = None\<rparr> True =
     (sample_controller \<lparr>Code = Some 404, Hdr = [], ContType = ''text/plain; charset=utf-8'',
         Rdr = Some (TextRender ''404 Not Found'' [])\<rparr>, None) \<and>
   reply (fst (handleNotFound (sample_app_nf (Some (GoMethod [TBool] sample_action)))
     (sample_controller NewReply) \<lparr>NotFoundRoute = Some ''notfound''\<rparr> True)) =
     \<lparr>Code = Some 404, Hdr = [], ContType = ''text/plain; charset=utf-8'',
         Rdr = Some (TextRender ''no such file'' [])\<rparr> \<and>
   reply (fst (handleNotFound (sample_app_nf None)
     (sample_controller NewReply) \<lparr>NotFoundRoute = Some ''notfound''\<rparr> True)) =
     \<lparr>Code = Some 404, Hdr = [], ContType = ''text/plain; charset=utf-8'',
         Rdr = Some (TextRender ''404 Not Found'' [])\<rparr>"
  using handleNotFound_cases [of "\<lparr>NotFoundRoute = None\<rparr>" sample_app "sample_controller NewReply" True]
    handleNotFound_cases [of "\<lparr>NotFoundRoute = Some ''notfound''\<rparr>" "sample_app_nf (Some (GoMethod [TBool] sample_action))"
      "sample_controller NewReply" True "''notfound''" "''App''" "''NotFound''" "GoMethod [TBool] sample_action"]
    handleNotFound_cases [of "\<lparr>NotFoundRoute = Some ''notfound''\<rparr>" "sample_app_nf None"
      "sample_controller NewReply" True "''notfound''" "''App''" "''NotFound''"]
  by (simp add: sample_app_nf_def sample_app_def sample_controller_def NewReply_def
      Controller_zero_def sample_action_def Text_def NotFound_def Status_def StatusNotFound_def
      ContentTypePlainTextRaw_def)

text \<open>
  The claim C8 as stated fails for a declared handler whose action is not compatible:
  the action is found by its name alone, so an action that takes no parameter is called
  all the same, the reflective call panics, and the reply gets no 404.
\<close>

theorem handleNotFound_counterexample:
  "NotFoundRoute \<lparr>NotFoundRoute = Some ''notfound''\<rparr> = Some ''notfound'' \<and>
   methodSet (sample_app_nf (Some (GoMethod [] sample_action))) ''App'' ''NotFound'' =
     Some (GoMethod [] sample_action) \<and>
   snd (handleNotFound (sample_app_nf (Some (GoMethod [] sample_action)))
     (sample_controller NewReply) \<lparr>NotFoundRoute = Some ''notfound''\<rparr> True) =
     Some ''reflect: Call with too many input arguments'' \<and>
   reply (fst (handleNotFound (sample_app_nf (Some (GoMethod [] sample_action)))
     (sample_controller NewReply) \<lparr>NotFoundRoute = Some ''notfound''\<rparr> True)) = NewReply \<and>
   Code (reply (fst (handleNotFound (sample_app_nf (Some (GoMethod [] sample_action)))
     (sample_controller NewReply) \<lparr>NotFoundRoute = Some ''notfound''\<rparr> True))) \<noteq> Some 404"
  by (simp add: handleNotFound_def setTarget_def Call_def sample_app_nf_def sample_app_def
      sample_controller_def NewReply_def Controller_zero_def)

section \<open>Properties of the recovery\<close>

lemma pool_Get_pristine:
  "pool_pristine z p \<Longrightarrow> fst (pool_Get p) = z \<and> pool_pristine z (snd (pool_Get p))"
  by (cases p; cases "items p") (auto simp: pool_pristine_def)

lemma pool_Put_pristine: "pool_pristine z p \<Longrightarrow> pool_pristine z (pool_Put z p)"
  by (cases p) (auto simp: pool_pristine_def)

lemma getBuffer_pristine:
  "pool_pristine [] (bPool e) \<Longrightarrow>
     fst (getBuffer e) = [] \<and> pool_pristine [] (bPool (snd (getBuffer e)))"
  using pool_Get_pristine [of "[]" "bPool e"]
  by (cases "pool_Get (bPool e)") (simp add: getBuffer_def)

text \<open>
  C2. For a recovered panic \<open>r\<close>, with the buffers of the pool empty as the engine leaves
  them, \<^verbatim>\<open>handleRecovery\<close> returns normally, the status of the reply is 500, and it has
  itself written the response: the headers of the reply, the plain-text content type,
  status 500 and the body, which is exactly \<^verbatim>\<open>Internal Server Error\<close> under the profile
  \<^verbatim>\<open>prod\<close> and \<^verbatim>\<open>Internal Server Error: \<close> followed by the printed stack trace of \<open>r\<close> under
  every other profile.
\<close>

theorem handleRecovery_reply:
  assumes "pool_pristine [] (bPool e)"
  shows "snd (snd (handleRecovery a e c (Some r))) = None \<and>
         Code (reply (fst (snd (handleRecovery a e c (Some r))))) = Some 500 \<and>
         Res (fst (snd (handleRecovery a e c (Some r)))) =
           Res c @ copy_headers (Hdr (reply c)) [] @
             [HeaderSet ''Content-Type'' ''text/plain; charset=utf-8'', WriteHeader 500,
              Write (if appProfile a = ''prod'' then ''Internal Server Error''
                     else ''Internal Server Error: '' @ StacktracePrint a r)]"
proof -
  obtain b0 e1 where g: "getBuffer e = (b0, e1)"
    by (cases "getBuffer e")
  with getBuffer_pristine [OF assms] have b0: "b0 = []" and e1: "pool_pristine [] (bPool e1)"
    by simp_all
  from getBuffer_pristine [OF e1] have b1: "fst (getBuffer e1) = []"
    by simp
  show ?thesis
  proof (cases "appProfile a = ''prod''")
    case True
    let ?c1 = "c\<lparr>reply := Text ''Internal Server Error'' []
                  (Status StatusInternalServerError (reply c))\<rparr>"
    have "renderBody (reply ?c1) (fst (getBuffer e1)) = (''Internal Server Error'', RenderOk)"
      using b1 by (simp add: renderBody_def Text_def)
    from writeResponse_RenderOk [OF this] show ?thesis
      using True g b0
      by (simp add: handleRecovery_def Let_def Text_def Status_def WriteTo_def
          StatusInternalServerError_def HeaderContentType_def ContentTypePlainTextRaw_def)
  next
    case False
    let ?c1 = "c\<lparr>reply := Text ''Internal Server Error: %s'' [StacktracePrint a r]
                  (Status StatusInternalServerError (reply c))\<rparr>"
    have "renderBody (reply ?c1) (fst (getBuffer e1)) =
            (''Internal Server Error: '' @ StacktracePrint a r, RenderOk)"
      using b1 by (simp add: renderBody_def Text_def)
    from writeResponse_RenderOk [OF this] show ?thesis
      using False g b0
      by (simp add: handleRecovery_def Let_def Text_def Status_def WriteTo_def
          StatusInternalServerError_def HeaderContentType_def ContentTypePlainTextRaw_def)
  qed
qed

theorem handleRecovery_reply_witness:
  "pool_pristine [] (bPool newEngine) \<and>
   Res (fst (snd (handleRecovery sample_app newEngine (sample_controller NewReply) (Some ''boom'')))) =
     [HeaderSet ''Content-Type'' ''text/plain; charset=utf-8'', WriteHeader 500,
      Write ''Internal Server Error: boom at main.go:1''] \<and>
   Res (fst (snd (handleRecovery (sample_app\<lparr>appProfile := ''prod''\<rparr>) newEngine
     (sample_controller NewReply) (Some ''boom'')))) =
     [HeaderSet ''Content-Type'' ''text/plain; charset=utf-8'', WriteHeader 500,
      Write ''Internal Server Error'']"
  using handleRecovery_reply [of newEngine sample_app "sample_controller NewReply" "''boom''"]
    handleRecovery_reply [of newEngine "sample_app\<lparr>appProfile := ''prod''\<rparr>"
      "sample_controller NewReply" "''boom''"]
  by (simp add: pool_pristine_def newEngine_def NewPool_def sample_app_def sample_controller_def
      NewReply_def Controller_zero_def)

section \<open>Properties of the pools and of the request lifecycle\<close>

lemma Reset_Controller_zero: "Reset_Controller c = Controller_zero"
  by (cases c) (simp add: Reset_Controller_def Controller_zero_def)

lemma Reset_Request_zero: "Reset_Request r = Request_zero"
  by (cases r) (simp add: Reset_Request_def Request_zero_def)

text \<open>What each accessor of the engine does to the pools and to the log.\<close>

lemma getBuffer_fields:
  "cPool (snd (getBuffer e)) = cPool e" "rPool (snd (getBuffer e)) = rPool e"
  "bPool (snd (getBuffer e)) = snd (pool_Get (bPool e))"
  "plog (snd (getBuffer e)) = plog e @ [GetB]"
  "fst (getBuffer e) = fst (pool_Get (bPool e))"
  by (cases "pool_Get (bPool e)"; simp add: getBuffer_def)+

lemma putBuffer_fields:
  "cPool (putBuffer e b) = cPool e" "rPool (putBuffer e b) = rPool e"
  "bPool (putBuffer e b) = pool_Put [] (bPool e)"
  "plog (putBuffer e b) = plog e @ [PutB []]"
  by (simp_all add: putBuffer_def Reset_Buffer_def)

lemma getController_fields:
  "cPool (snd (getController e)) = snd (pool_Get (cPool e))"
  "rPool (snd (getController e)) = rPool e"
  "bPool (snd (getController e)) = bPool e"
  "plog (snd (getController e)) = plog e @ [GetC]"
  "fst (getController e) = fst (pool_Get (cPool e))"
  by (cases "pool_Get (cPool e)"; simp add: getController_def)+

lemma getRequest_fields:
  "cPool (snd (getRequest e)) = cPool e"
  "rPool (snd (getRequest e)) = snd (pool_Get (rPool e))"
  "bPool (snd (getRequest e)) = bPool e"
  "plog (snd (getRequest e)) = plog e @ [GetR]"
  "fst (getRequest e) = fst (pool_Get (rPool e))"
  by (cases "pool_Get (rPool e)"; simp add: getRequest_def)+

lemma putController_fields:
  "cPool (putController e c) = pool_Put Controller_zero (cPool e)"
  "rPool (putController e c) = rPool e" "bPool (putController e c) = bPool e"
  "plog (putController e c) = plog e @ [PutC Controller_zero]"
  by (simp_all add: putController_def Reset_Controller_zero)

lemma putRequest_fields:
  "cPool (putRequest e r) = cPool e"
  "rPool (putRequest e r) = pool_Put Request_zero (rPool e)" "bPool (putRequest e r) = bPool e"
  "plog (putRequest e r) = plog e @ [PutR Request_zero]"
  by (simp_all add: putRequest_def Reset_Request_zero)

text \<open>\<^verbatim>\<open>writeResponse\<close> takes one buffer and returns one; the recovery, two.\<close>

lemma writeResponse_engine:
  "\<exists>b. fst (writeResponse e c) = putBuffer (snd (getBuffer e)) b"
proof (cases "renderBody (reply c) (fst (getBuffer e))")
  case (Pair b st)
  then show ?thesis
    by (cases st)
      (auto simp: writeResponse_RenderOk writeResponse_RenderErr writeResponse_RenderPanic)
qed

lemma handleRecovery_engine:
  "handleRecovery a e c None = (e, c, None)"
  "\<exists>b b'. fst (handleRecovery a e c (Some r)) =
     putBuffer (putBuffer (snd (getBuffer (snd (getBuffer e)))) b) b'"
proof -
  show "handleRecovery a e c None = (e, c, None)"
    by (simp add: handleRecovery_def)
next
  obtain b0 e1 where g: "getBuffer e = (b0, e1)"
    by (cases "getBuffer e")
  show "\<exists>b b'. fst (handleRecovery a e c (Some r)) =
     putBuffer (putBuffer (snd (getBuffer (snd (getBuffer e)))) b) b'"
  proof (cases "appProfile a = ''prod''")
    case True
    let ?c1 = "c\<lparr>reply := Text ''Internal Server Error'' []
                  (Status StatusInternalServerError (reply c))\<rparr>"
    obtain b where "fst (writeResponse e1 ?c1) = putBuffer (snd (getBuffer e1)) b"
      using writeResponse_engine by blast
    then show ?thesis
      using True g
      by (cases "writeResponse e1 ?c1") (auto simp: handleRecovery_def Let_def)
  next
    case False
    let ?c1 = "c\<lparr>reply := Text ''Internal Server Error: %s'' [b0 @ StacktracePrint a r]
                  (Status StatusInternalServerError (reply c))\<rparr>"
    obtain b where "fst (writeResponse e1 ?c1) = putBuffer (snd (getBuffer e1)) b"
      using writeResponse_engine by blast
    then show ?thesis
      using False g
      by (cases "writeResponse e1 ?c1") (auto simp: handleRecovery_def Let_def)
  qed
qed

subsection \<open>Every operation keeps the pools pristine\<close>

lemma pristine_getBuffer: "pristine e \<Longrightarrow> pristine (snd (getBuffer e))"
  using pool_Get_pristine [of "[]" "bPool e"] by (simp add: pristine_def getBuffer_fields)

lemma pristine_putBuffer: "pristine e \<Longrightarrow> pristine (putBuffer e b)"
  using pool_Put_pristine [of "[]" "bPool e"] by (simp add: pristine_def putBuffer_fields)

lemma pristine_getController: "pristine e \<Longrightarrow> pristine (snd (getController e))"
  using pool_Get_pristine [of Controller_zero "cPool e"]
  by (simp add: pristine_def getController_fields)

lemma pristine_putController: "pristine e \<Longrightarrow> pristine (putController e c)"
  using pool_Put_pristine [of Controller_zero "cPool e"]
  by (simp add: pristine_def putController_fields)

lemma pristine_getRequest: "pristine e \<Longrightarrow> pristine (snd (getRequest e))"
  using pool_Get_pristine [of Request_zero "rPool e"]
  by (simp add: pristine_def getRequest_fields)

lemma pristine_putRequest: "pristine e \<Longrightarrow> pristine (putRequest e r)"
  using pool_Put_pristine [of Request_zero "rPool e"]
  by (simp add: pristine_def putRequest_fields)

lemma pristine_writeResponse: "pristine e \<Longrightarrow> pristine (fst (writeResponse e c))"
  using writeResponse_engine [of e c] by (auto simp: pristine_getBuffer pristine_putBuffer)

lemma pristine_handleRecovery: "pristine e \<Longrightarrow> pristine (fst (handleRecovery a e c rcv))"
proof (cases rcv)
  case None
  then show "pristine e \<Longrightarrow> ?thesis" by (simp add: handleRecovery_engine)
next
  case (Some r)
  then show "pristine e \<Longrightarrow> ?thesis"
    using handleRecovery_engine(2) [of a e c r]
    by (auto simp: pristine_getBuffer pristine_putBuffer)
qed

lemma serveGuarded_cases:
  "(\<exists>c2 p. executeMiddlewares a (setDefaults a c) = (c2, Some p) \<and>
      serveGuarded a e c = (e, c2, Some p)) \<or>
   (\<exists>c2. executeMiddlewares a (setDefaults a c) = (c2, None) \<and>
      serveGuarded a e c = writeResponse e c2)"
  by (cases "executeMiddlewares a (setDefaults a c)"; cases "snd (executeMiddlewares a (setDefaults a c))")
    (auto simp: serveGuarded_def)

lemma pristine_serveGuarded: "pristine e \<Longrightarrow> pristine (fst (serveGuarded a e c))"
  using serveGuarded_cases [of a c e] by (auto simp: pristine_writeResponse)

text \<open>The two shapes of \<^verbatim>\<open>ServeHTTP\<close>: the parser panics, or it returns.\<close>

lemma ServeHTTP_parse_panic:
  assumes "ParseRequest a req (fst (getRequest (snd (getController e)))) = Inl p"
  shows "ServeHTTP a e w req =
    (putController
       (putRequest (snd (getRequest (snd (getController e))))
          (fst (getRequest (snd (getController e)))))
       (close (fst (getController e))), w, Some p)"
  using assms
  by (cases "getController e"; cases "getRequest (snd (getController e))")
    (simp add: ServeHTTP_def Let_def)

lemma ServeHTTP_parsed:
  assumes "ParseRequest a req (fst (getRequest (snd (getController e)))) = Inr r'"
    and "serveGuarded a (snd (getRequest (snd (getController e))))
           ((fst (getController e))\<lparr>Req := r', Res := w, reply := NewReply\<rparr>) = (e3, c2, p)"
    and "handleRecovery a e3 c2 p = (e4, c3, p')"
  shows "ServeHTTP a e w req =
    (putController (putRequest e4 (Req c3)) (close c3), Res c3, p')"
  using assms
  by (cases "getController e"; cases "getRequest (snd (getController e))")
    (simp add: ServeHTTP_def Let_def)

lemma pristine_ServeHTTP: "pristine e \<Longrightarrow> pristine (fst (ServeHTTP a e w req))"
proof -
  assume pe: "pristine e"
  let ?e2 = "snd (getRequest (snd (getController e)))"
  have p2: "pristine ?e2"
    using pe by (simp add: pristine_getController pristine_getRequest)
  show ?thesis
  proof (cases "ParseRequest a req (fst (getRequest (snd (getController e))))")
    case (Inl p)
    from ServeHTTP_parse_panic [OF this] show ?thesis
      using p2 by (simp add: pristine_putController pristine_putRequest)
  next
    case (Inr r')
    let ?c1 = "(fst (getController e))\<lparr>Req := r', Res := w, reply := NewReply\<rparr>"
    obtain e3 c2 p where g: "serveGuarded a ?e2 ?c1 = (e3, c2, p)"
      by (cases "serveGuarded a ?e2 ?c1")
    obtain e4 c3 p' where h: "handleRecovery a e3 c2 p = (e4, c3, p')"
      by (cases "handleRecovery a e3 c2 p")
    have "pristine e3" using pristine_serveGuarded [OF p2, of a ?c1] g by simp
    then have "pristine e4" using pristine_handleRecovery [of e3 a c2 p] h by simp
    with ServeHTTP_parsed [OF Inr g h] show ?thesis
      by (simp add: pristine_putController pristine_putRequest)
  qed
qed

lemma pristine_pool_step: "pristine e \<Longrightarrow> pristine (pool_step e opn)"
  by (cases opn)
    (simp_all add: pristine_getBuffer pristine_putBuffer pristine_getController
      pristine_putController pristine_getRequest pristine_putRequest pristine_ServeHTTP)

lemma pristine_run_ops: "pristine e \<Longrightarrow> pristine (run_ops ops e)"
  unfolding run_ops_def by (induction ops arbitrary: e) (simp_all add: pristine_pool_step)

lemma pristine_newEngine: "pristine newEngine"
  by (simp add: pristine_def pool_pristine_def newEngine_def NewPool_def)

text \<open>
  C6. After any sequence of pool operations on a new engine (acquire and release of
  Controllers, Request views and buffers in any state, and whole requests), the object
  that each pool hands out next is equal to a freshly constructed one, also right
  after the release of an object in any state.
\<close>

theorem pooled_objects_pristine:
  "fst (getController (run_ops ops newEngine)) = Controller_zero \<and>
   fst (getRequest (run_ops ops newEngine)) = Request_zero \<and>
   fst (getBuffer (run_ops ops newEngine)) = [] \<and>
   fst (getController (putController (run_ops ops newEngine) c)) = Controller_zero \<and>
   fst (getRequest (putRequest (run_ops ops newEngine) r)) = Request_zero \<and>
   fst (getBuffer (putBuffer (run_ops ops newEngine) b)) = []"
proof -
  have p: "pristine (run_ops ops newEngine)"
    by (rule pristine_run_ops [OF pristine_newEngine])
  have g: "fst (getController e) = Controller_zero \<and> fst (getRequest e) = Request_zero \<and>
           fst (getBuffer e) = []" if "pristine e" for e
    using that pool_Get_pristine [of Controller_zero "cPool e"]
      pool_Get_pristine [of Request_zero "rPool e"] pool_Get_pristine [of "[]" "bPool e"]
    by (simp add: pristine_def getController_fields getRequest_fields getBuffer_fields)
  show ?thesis
    using g [OF p] g [OF pristine_putController [OF p, of c]]
      g [OF pristine_putRequest [OF p, of r]] g [OF pristine_putBuffer [OF p, of b]]
    by simp
qed

theorem pooled_objects_pristine_witness:
  "fst (getController (run_ops [OpPutController (sample_controller sample_reply),
      OpServeHTTP sample_app [] sample_raw] newEngine)) = Controller_zero \<and>
   fst (getBuffer (putBuffer (run_ops [] newEngine) ''left over'')) = []"
  using pooled_objects_pristine [of "[OpPutController (sample_controller sample_reply),
      OpServeHTTP sample_app [] sample_raw]"]
    pooled_objects_pristine [of "[]" _ _ "''left over''"]
  by simp






subsection \<open>What reaches the wire\<close>

lemma Res_setDefaults: "Res (setDefaults a c) = Res c"
  by (simp add: setDefaults_def)

lemma writeResponse_wire:
  "(\<exists>e' p. writeResponse e c = (e', c, Some p)) \<or>
   (\<exists>e' evs. writeResponse e c = (e', c\<lparr>Res := Res c @ evs\<rparr>, None) \<and>
      length (filter is_WriteHeader evs) = 1)"
proof (cases "renderBody (reply c) (fst (getBuffer e))")
  case (Pair b st)
  show ?thesis
  proof (cases st)
    case RenderOk
    let ?evs = "WriteTo b (copy_headers (Hdr (reply c)) [] @
         [HeaderSet HeaderContentType (ContType (reply c)),
          WriteHeader (case Code (reply c) of Some code \<Rightarrow> code | None \<Rightarrow> StatusOK)])"
    have "writeResponse e c = (putBuffer (snd (getBuffer e)) b, c\<lparr>Res := Res c @ ?evs\<rparr>, None)"
      using Pair RenderOk writeResponse_RenderOk [of c e b] by simp
    moreover have "length (filter is_WriteHeader ?evs) = 1"
      by (simp add: filter_WriteHeader_WriteTo filter_WriteHeader_copy_headers)
    ultimately show ?thesis by blast
  next
    case (RenderErr m)
    let ?evs = "[WriteHeader StatusInternalServerError, Write (''Render error: '' @ m @ ''\<newline>'')]"
    have "writeResponse e c = (putBuffer (snd (getBuffer e)) b, c\<lparr>Res := Res c @ ?evs\<rparr>, None)"
      using Pair RenderErr writeResponse_RenderErr [of c e b m] by simp
    moreover have "length (filter is_WriteHeader ?evs) = 1"
      by simp
    ultimately show ?thesis by blast
  next
    case (RenderPanic p)
    with Pair writeResponse_RenderPanic [of c e b p] show ?thesis
      by simp
  qed
qed

lemma handleRecovery_wire:
  "\<exists>e' c' evs. handleRecovery a e c (Some r) = (e', c', None) \<and>
     Res c' = Res c @ evs \<and> length (filter is_WriteHeader evs) = 1"
proof -
  obtain b0 e1 where g: "getBuffer e = (b0, e1)"
    by (cases "getBuffer e")
  have t: "\<exists>e' c' evs. writeResponse e1 (c\<lparr>reply := Text f vs rp\<rparr>) = (e', c', None) \<and>
     Res c' = Res c @ evs \<and> length (filter is_WriteHeader evs) = 1" for f vs rp
  proof -
    let ?c1 = "c\<lparr>reply := Text f vs rp\<rparr>"
    have "renderBody (reply ?c1) (fst (getBuffer e1)) = (fst (getBuffer e1) @ Sprintf f vs, RenderOk)"
      by (simp add: renderBody_def Text_def)
    from writeResponse_RenderOk [OF this] show ?thesis
      by (simp add: filter_WriteHeader_WriteTo filter_WriteHeader_copy_headers Text_def)
  qed
  show ?thesis
  proof (cases "appProfile a = ''prod''")
    case True
    from t [of "''Internal Server Error''" "[]" "Status StatusInternalServerError (reply c)"]
    show ?thesis using True g by (auto simp: handleRecovery_def Let_def)
  next
    case False
    from t [of "''Internal Server Error: %s''" "[b0 @ StacktracePrint a r]"
        "Status StatusInternalServerError (reply c)"]
    show ?thesis using False g by (auto simp: handleRecovery_def Let_def)
  qed
qed

text \<open>
  C1, as the code has it. When the parser of the request returns, no panic leaves
  \<^verbatim>\<open>ServeHTTP\<close>, and after the calls that the middleware chain made on the writer the engine
  writes exactly one response (one status line): the normal one, the render-error one,
  or the one of the recovery when the chain or the render step panicked.
\<close>

theorem ServeHTTP_recovers:
  assumes "ParseRequest a req (fst (getRequest (snd (getController e)))) = Inr r'"
  shows "snd (snd (ServeHTTP a e w req)) = None \<and>
    (let c_mw = fst (executeMiddlewares a
           (setDefaults a ((fst (getController e))\<lparr>Req := r', Res := w, reply := NewReply\<rparr>)));
         w' = fst (snd (ServeHTTP a e w req))
     in take (length (Res c_mw)) w' = Res c_mw \<and>
        length (filter is_WriteHeader (drop (length (Res c_mw)) w')) = 1)"
proof -
  let ?e2 = "snd (getRequest (snd (getController e)))"
  let ?c1 = "(fst (getController e))\<lparr>Req := r', Res := w, reply := NewReply\<rparr>"
  obtain c2 mp where m: "executeMiddlewares a (setDefaults a ?c1) = (c2, mp)"
    by (cases "executeMiddlewares a (setDefaults a ?c1)")
  obtain e3 c2' p where g: "serveGuarded a ?e2 ?c1 = (e3, c2', p)"
    by (cases "serveGuarded a ?e2 ?c1")
  obtain e4 c3 p' where h: "handleRecovery a e3 c2' p = (e4, c3, p')"
    by (cases "handleRecovery a e3 c2' p")
  have "p' = None \<and> (\<exists>evs. Res c3 = Res c2 @ evs \<and> length (filter is_WriteHeader evs) = 1)"
  proof (cases mp)
    case (Some q)
    with m g have "c2' = c2" "p = Some q" by (simp_all add: serveGuarded_def)
    with h handleRecovery_wire [of a e3 c2 q] show ?thesis by auto
  next
    case None
    with m g have wr: "writeResponse ?e2 c2 = (e3, c2', p)" by (simp add: serveGuarded_def)
    show ?thesis
    proof (cases p)
      case None
      with wr writeResponse_wire [of ?e2 c2] h show ?thesis
        by (auto simp: handleRecovery_def)
    next
      case (Some q)
      with wr writeResponse_wire [of ?e2 c2] have "c2' = c2" by auto
      with Some h handleRecovery_wire [of a e3 c2 q] show ?thesis by auto
    qed
  qed
  with ServeHTTP_parsed [OF assms g h] m show ?thesis
    by (auto simp: Let_def)
qed

theorem ServeHTTP_recovers_witness:
  "ParseRequest (sample_app\<lparr>mwChain := [panicking_stage]\<rparr>) sample_raw
     (fst (getRequest (snd (getController newEngine)))) =
     Inr (Request_zero\<lparr>Method := ''GET'', Path := ''/users'', Raw := sample_raw\<rparr>) \<and>
   snd (snd (ServeHTTP (sample_app\<lparr>mwChain := [panicking_stage]\<rparr>) newEngine [] sample_raw)) = None \<and>
   length (filter is_WriteHeader
     (fst (snd (ServeHTTP (sample_app\<lparr>mwChain := [panicking_stage]\<rparr>) newEngine [] sample_raw)))) = 1"
proof -
  have p: "ParseRequest (sample_app\<lparr>mwChain := [panicking_stage]\<rparr>) sample_raw
     (fst (getRequest (snd (getController newEngine)))) =
     Inr (Request_zero\<lparr>Method := ''GET'', Path := ''/users'', Raw := sample_raw\<rparr>)"
    by (simp add: sample_app_def sample_raw_def getRequest_fields getController_fields
        newEngine_def NewPool_def)
  from ServeHTTP_recovers [OF p, of "[]"] p show ?thesis
    by (simp add: Let_def executeMiddlewares_def panicking_stage_def Res_setDefaults)
qed

text \<open>
  The claim C1 as stated fails for a panic of the request parser: it is raised before
  the recovery is deferred, so it leaves \<^verbatim>\<open>ServeHTTP\<close> and nothing is written.
\<close>

theorem ServeHTTP_counterexample:
  "snd (ServeHTTP (sample_app\<lparr>ParseRequest := panicking_parser\<rparr>) newEngine [] sample_raw) =
     ([], Some ''malformed request'')"
  by (simp add: ServeHTTP_def Let_def getController_def getRequest_def newEngine_def NewPool_def
      panicking_parser_def)

end
